theory Spec2Isabelle
  imports Complex_Main
begin

section \<open>Receivables audit: compliance check, aging engine, CSV ingestion\<close>

text \<open>
  A shallow embedding of the audit logic of the application's main module:
  \<^verbatim>\<open>checkCoaCompliance\<close>, \<^verbatim>\<open>calculateAllowance\<close>, \<^verbatim>\<open>parseCSVLine\<close>,
  \<^verbatim>\<open>parseCSVData\<close> and the upload handler \<^verbatim>\<open>handleFileUpload\<close>.

  Conventions of the embedding.
  \<^item> A JavaScript number holding an amount or a rate is a value of a type \<open>'n\<close> that
    has \<open>0\<close>, \<open>+\<close>, \<open>*\<close> and \<open>\<le>\<close>. No law of arithmetic is assumed of them,
    so what is proved of the amounts holds of doubles with their rounded sum and
    product, as it does of exact rationals. A statement that needs the order to be
    linear says so in its sort; this leaves NaN out, the one number that compares
    with nothing. A decimal literal of the source with a fraction is read into \<open>'n\<close>
    by the parameter \<open>literal\<close> (for doubles, the double nearest to it). A count is a
    \<open>nat\<close>.
  \<^item> A time value (\<^verbatim>\<open>Date.getTime()\<close>) is an \<open>int option\<close>: \<open>Some ms\<close> for a valid
    date, \<open>None\<close> for an Invalid Date, whose time value is NaN. Every comparison with
    NaN is false, which the model writes out.
  \<^item> The built-ins \<^verbatim>\<open>new Date(string)\<close>, \<^verbatim>\<open>parseFloat\<close> and \<^verbatim>\<open>JSON.parse\<close> are
    parameters of the functions that call them.
  \<^item> A string is a list of 8-bit characters, read as the code units U+0000 to U+00FF.
\<close>

subsection \<open>Data model\<close>

record Account =
  account_id :: string
  account_name :: string
  account_type :: string

record 'n Invoice =
  invoice_id :: string
  customer_id :: string
  invoice_date :: string
  due_date :: string
  original_amount :: 'n
  amount_paid :: 'n
  balance_due :: 'n
  status :: string

record 'n Transaction =
  transaction_id :: string
  transaction_date :: string
  debit_account_id :: string
  credit_account_id :: string
  amount :: 'n
  reference_invoice_id :: "string option"
  description :: string

record 'n AgingBucket =
  bucket :: string
  total_amount :: 'n
  invoice_count :: nat
  allowance_rate :: 'n
  estimated_allowance :: 'n

text \<open>
  The issue's fields carry the prefix \<open>issue_\<close>: two of the source's names
  (\<^verbatim>\<open>transaction_id\<close>, \<^verbatim>\<open>description\<close>) are fields of \<open>Transaction\<close> already.
\<close>

record ComplianceIssue =
  issue_transaction_id :: string
  issue_type :: string
  issue_description :: string
  severity :: string

subsection \<open>Compliance check\<close>

text \<open>
  \<^verbatim>\<open>accountIds\<close> is the set of the chart's ids; the body of the \<^verbatim>\<open>forEach\<close> pushes at
  most one issue for the debit side and then at most one for the credit side.
\<close>

definition checkTransaction ::
  "string set \<Rightarrow> 'n Transaction \<Rightarrow> ComplianceIssue list \<Rightarrow> ComplianceIssue list" where
  "checkTransaction accountIds txn issues =
     (let issues1 =
            (if debit_account_id txn \<notin> accountIds
             then issues @ [\<lparr>issue_transaction_id = transaction_id txn,
                             issue_type = ''Invalid Debit Account'',
                             issue_description =
                               ''Debit Account ID '' @ debit_account_id txn @ '' not found in COA.'',
                             severity = ''High''\<rparr>]
             else issues)
      in if credit_account_id txn \<notin> accountIds
         then issues1 @ [\<lparr>issue_transaction_id = transaction_id txn,
                          issue_type = ''Invalid Credit Account'',
                          issue_description =
                            ''Credit Account ID '' @ credit_account_id txn @ '' not found in COA.'',
                          severity = ''High''\<rparr>]
         else issues1)"

definition checkCoaCompliance ::
  "'n Transaction list \<Rightarrow> Account list \<Rightarrow> ComplianceIssue list" where
  "checkCoaCompliance transactions coa =
     (let accountIds = set (map account_id coa)
      in fold (checkTransaction accountIds) transactions [])"

subsection \<open>Aging and allowance\<close>

text \<open>
  The array \<^verbatim>\<open>buckets\<close> as the source writes it, the rates \<^verbatim>\<open>0.01\<close>, \<^verbatim>\<open>0.05\<close>,
  \<^verbatim>\<open>0.10\<close>, \<^verbatim>\<open>0.25\<close> and \<^verbatim>\<open>0.50\<close> being the numbers these literals denote.
\<close>

definition initial_buckets :: "(rat \<Rightarrow> 'n) \<Rightarrow> ('n::zero) AgingBucket list" where
  "initial_buckets literal =
     [\<lparr>bucket = ''Current'', total_amount = 0, invoice_count = 0,
       allowance_rate = literal (1 / 100), estimated_allowance = 0\<rparr>,
      \<lparr>bucket = ''1-30 Days'', total_amount = 0, invoice_count = 0,
       allowance_rate = literal (5 / 100), estimated_allowance = 0\<rparr>,
      \<lparr>bucket = ''31-60 Days'', total_amount = 0, invoice_count = 0,
       allowance_rate = literal (10 / 100), estimated_allowance = 0\<rparr>,
      \<lparr>bucket = ''61-90 Days'', total_amount = 0, invoice_count = 0,
       allowance_rate = literal (25 / 100), estimated_allowance = 0\<rparr>,
      \<lparr>bucket = ''90+ Days'', total_amount = 0, invoice_count = 0,
       allowance_rate = literal (50 / 100), estimated_allowance = 0\<rparr>]"

text \<open>
  \<^verbatim>\<open>diffTime = REF_DATE.getTime() - dueDate.getTime()\<close>: NaN as soon as one of the two
  dates is invalid.
\<close>

definition diffTime :: "int option \<Rightarrow> int option \<Rightarrow> int option" where
  "diffTime REF_DATE dueDate =
     (case (REF_DATE, dueDate) of
        (Some r, Some d) \<Rightarrow> Some (r - d)
      | _ \<Rightarrow> None)"

text \<open>\<^verbatim>\<open>diffDays = Math.ceil(diffTime / (1000 * 60 * 60 * 24))\<close>.\<close>

definition diffDays :: "int option \<Rightarrow> int option" where
  "diffDays t =
     (case t of
        None \<Rightarrow> None
      | Some ms \<Rightarrow> Some \<lceil>(of_int ms :: rat) / (1000 * 60 * 60 * 24)\<rceil>)"

text \<open>
  The \<^verbatim>\<open>if\<close> chain on \<^verbatim>\<open>diffDays\<close>. For NaN every test is false and the last
  \<^verbatim>\<open>else\<close> is taken.
\<close>

definition bucketIndex :: "int option \<Rightarrow> nat" where
  "bucketIndex days =
     (case days of
        None \<Rightarrow> 4
      | Some d \<Rightarrow>
          if d \<le> 0 then 0
          else if d \<le> 30 then 1
          else if d \<le> 60 then 2
          else if d \<le> 90 then 3
          else 4)"

text \<open>The body of \<^verbatim>\<open>invoices.forEach\<close>, on the array of buckets.\<close>

definition ageInvoice ::
  "(string \<Rightarrow> int option) \<Rightarrow> int option \<Rightarrow> 'n Invoice \<Rightarrow>
   'n AgingBucket list \<Rightarrow> ('n::{zero,plus,ord}) AgingBucket list" where
  "ageInvoice Date_parse REF_DATE invoice buckets =
     (if balance_due invoice \<le> 0 then buckets
      else
        let dueDate = Date_parse (due_date invoice);
            i = bucketIndex (diffDays (diffTime REF_DATE dueDate))
        in buckets[i := (buckets ! i)
             \<lparr>total_amount := total_amount (buckets ! i) + balance_due invoice,
              invoice_count := invoice_count (buckets ! i) + 1\<rparr>])"

text \<open>
  \<^verbatim>\<open>calculateAllowance\<close> in two passes, as the source has them: the loop over the
  invoices (\<open>accumulate\<close>), then the pass that sets every estimated allowance. The
  reference date is given by every caller here; the source's default for it,
  \<^verbatim>\<open>'2024-07-01'\<close>, is also what its one call site passes.
\<close>

definition accumulate ::
  "(rat \<Rightarrow> 'n) \<Rightarrow> (string \<Rightarrow> int option) \<Rightarrow> 'n Invoice list \<Rightarrow> string \<Rightarrow>
   ('n::{zero,plus,ord}) AgingBucket list" where
  "accumulate literal Date_parse invoices referenceDateStr =
     fold (ageInvoice Date_parse (Date_parse referenceDateStr)) invoices
       (initial_buckets literal)"

definition calculateAllowance ::
  "(rat \<Rightarrow> 'n) \<Rightarrow> (string \<Rightarrow> int option) \<Rightarrow> 'n Invoice list \<Rightarrow> string \<Rightarrow>
   ('n::{zero,plus,times,ord}) AgingBucket list" where
  "calculateAllowance literal Date_parse invoices referenceDateStr =
     map (\<lambda>b. b\<lparr>estimated_allowance := total_amount b * allowance_rate b\<rparr>)
       (accumulate literal Date_parse invoices referenceDateStr)"

text \<open>
  The age of an invoice in whole days, as the specification words it:
  \<open>ceil((referenceDate - due_date) / 1 day)\<close>, undefined (NaN) when a date is invalid.
\<close>

definition age_in_days ::
  "(string \<Rightarrow> int option) \<Rightarrow> string \<Rightarrow> 'n Invoice \<Rightarrow> int option" where
  "age_in_days Date_parse referenceDateStr invoice =
     (case Date_parse referenceDateStr of
        None \<Rightarrow> None
      | Some r \<Rightarrow>
          (case Date_parse (due_date invoice) of
             None \<Rightarrow> None
           | Some d \<Rightarrow> Some \<lceil>(of_int (r - d) :: rat) / 86400000\<rceil>))"

subsection \<open>The date-only ISO form read by \<^verbatim>\<open>new Date\<close>\<close>

text \<open>
  \<^verbatim>\<open>new Date("YYYY-MM-DD")\<close> is midnight UTC of that day. \<open>Date_parse_iso\<close> reads this
  form only, with the day arithmetic of ECMAScript (\<open>DayFromYear\<close>, the leap-year rule,
  the months' offsets); on any other string it answers \<open>None\<close>, and no statement below
  depends on its answer there.
\<close>

definition digitValue :: "char \<Rightarrow> nat option" where
  "digitValue c =
     (let n = (of_char c :: nat) in if 48 \<le> n \<and> n \<le> 57 then Some (n - 48) else None)"

fun decimalValue :: "nat \<Rightarrow> string \<Rightarrow> nat option" where
  "decimalValue acc [] = Some acc"
| "decimalValue acc (c # cs) =
     (case digitValue c of
        None \<Rightarrow> None
      | Some v \<Rightarrow> decimalValue (10 * acc + v) cs)"

definition DayFromYear :: "int \<Rightarrow> int" where
  "DayFromYear y =
     365 * (y - 1970) + (y - 1969) div 4 - (y - 1901) div 100 + (y - 1601) div 400"

definition InLeapYear :: "int \<Rightarrow> bool" where
  "InLeapYear y = (y mod 4 = 0 \<and> (y mod 100 \<noteq> 0 \<or> y mod 400 = 0))"

definition DaysInMonth :: "int \<Rightarrow> nat \<Rightarrow> int" where
  "DaysInMonth y m =
     (if m = 2 then (if InLeapYear y then 29 else 28)
      else if m = 4 \<or> m = 6 \<or> m = 9 \<or> m = 11 then 30 else 31)"

definition DayWithinYear :: "int \<Rightarrow> nat \<Rightarrow> int \<Rightarrow> int" where
  "DayWithinYear y m d =
     [0, 31, 59, 90, 120, 151, 181, 212, 243, 273, 304, 334] ! (m - 1)
       + (if 2 < m \<and> InLeapYear y then 1 else 0) + (d - 1)"

definition msPerDay :: int where
  "msPerDay = 86400000"

definition Date_parse_iso :: "string \<Rightarrow> int option" where
  "Date_parse_iso s =
     (if length s = 10 \<and> s ! 4 = CHR ''-'' \<and> s ! 7 = CHR ''-'' then
        (case (decimalValue 0 (take 4 s), decimalValue 0 (take 2 (drop 5 s)),
               decimalValue 0 (drop 8 s)) of
           (Some y, Some m, Some d) \<Rightarrow>
             if 1 \<le> m \<and> m \<le> 12 \<and> 1 \<le> d \<and> int d \<le> DaysInMonth (int y) m
             then Some ((DayFromYear (int y) + DayWithinYear (int y) m (int d)) * msPerDay)
             else None
         | _ \<Rightarrow> None)
      else None)"

text \<open>The mock invoices of the application's constants, the default data set.\<close>

definition MOCK_INVOICES :: "rat Invoice list" where
  "MOCK_INVOICES =
     [\<lparr>invoice_id = ''INV-1001'', customer_id = ''CUST-001'', invoice_date = ''2024-05-01'',
       due_date = ''2024-05-31'', original_amount = 5000, amount_paid = 0,
       balance_due = 5000, status = ''Open''\<rparr>,
      \<lparr>invoice_id = ''INV-0900'', customer_id = ''CUST-002'', invoice_date = ''2024-03-01'',
       due_date = ''2024-03-31'', original_amount = 12000, amount_paid = 2000,
       balance_due = 10000, status = ''Open''\<rparr>,
      \<lparr>invoice_id = ''INV-0850'', customer_id = ''CUST-002'', invoice_date = ''2023-12-01'',
       due_date = ''2023-12-31'', original_amount = 8500, amount_paid = 0,
       balance_due = 8500, status = ''Open''\<rparr>,
      \<lparr>invoice_id = ''INV-0800'', customer_id = ''CUST-003'', invoice_date = ''2024-01-15'',
       due_date = ''2024-02-15'', original_amount = 3000, amount_paid = 3000,
       balance_due = 0, status = ''Paid''\<rparr>]"

subsection \<open>What the specification says of the two analyses\<close>

text \<open>
  The issues the specification asks of one transaction: the debit side first, then the
  credit side, each on its own.
\<close>

definition issues_of :: "string set \<Rightarrow> 'n Transaction \<Rightarrow> ComplianceIssue list" where
  "issues_of accountIds txn =
     (if debit_account_id txn \<in> accountIds then []
      else [\<lparr>issue_transaction_id = transaction_id txn,
             issue_type = ''Invalid Debit Account'',
             issue_description =
               ''Debit Account ID '' @ debit_account_id txn @ '' not found in COA.'',
             severity = ''High''\<rparr>]) @
     (if credit_account_id txn \<in> accountIds then []
      else [\<lparr>issue_transaction_id = transaction_id txn,
             issue_type = ''Invalid Credit Account'',
             issue_description =
               ''Credit Account ID '' @ credit_account_id txn @ '' not found in COA.'',
             severity = ''High''\<rparr>])"

text \<open>
  The specification's table of ages, bucket \<open>k\<close> counted from 0 in the order Current,
  1-30, 31-60, 61-90, 90+.
\<close>

definition in_age_range :: "nat \<Rightarrow> int \<Rightarrow> bool" where
  "in_age_range k a =
     (if k = 0 then a \<le> 0
      else if k = 1 then 1 \<le> a \<and> a \<le> 30
      else if k = 2 then 31 \<le> a \<and> a \<le> 60
      else if k = 3 then 61 \<le> a \<and> a \<le> 90
      else 90 < a)"

text \<open>
  Invoice \<open>iv\<close> is one that bucket \<open>k\<close> counts: its balance is positive and its age
  is in the bucket's range. An invoice whose age is undefined (an invalid date on either
  side) is one of the last bucket.
\<close>

definition lands ::
  "(string \<Rightarrow> int option) \<Rightarrow> string \<Rightarrow> nat \<Rightarrow> ('n::{zero,ord}) Invoice \<Rightarrow> bool" where
  "lands Date_parse referenceDateStr k iv =
     (0 < balance_due iv \<and>
      (case age_in_days Date_parse referenceDateStr iv of
         None \<Rightarrow> k = 4
       | Some a \<Rightarrow> in_age_range k a))"

text \<open>
  The invoices the loop adds to the bucket of index \<open>k\<close>, in the words of the source:
  those whose balance does not pass the test \<^verbatim>\<open>balance_due <= 0\<close> and whose index, on
  the \<^verbatim>\<open>if\<close> chain, is \<open>k\<close>. Nothing is asked of the order here.
\<close>

definition added_to ::
  "(string \<Rightarrow> int option) \<Rightarrow> string \<Rightarrow> nat \<Rightarrow> ('n::{zero,ord}) Invoice \<Rightarrow> bool" where
  "added_to Date_parse referenceDateStr k iv =
     (\<not> balance_due iv \<le> 0 \<and> bucketIndex (age_in_days Date_parse referenceDateStr iv) = k)"

text \<open>
  The sum of a list of amounts as the loop makes it: from 0, each amount added on the
  right of the running total, in the order of the list.
\<close>

definition running_total :: "('n::{zero,plus}) list \<Rightarrow> 'n" where
  "running_total xs = foldl (+) 0 xs"

subsection \<open>Strings\<close>

text \<open>
  The methods of \<^verbatim>\<open>String.prototype\<close> the parser calls, on code units up to U+00FF: the
  white space \<^verbatim>\<open>trim\<close> removes there is TAB, LF, VT, FF, CR, SPACE and NBSP, and
  \<^verbatim>\<open>toLowerCase\<close> moves A to Z and the capital letters of Latin-1 (U+00C0 to U+00DE but
  the multiplication sign U+00D7) up by 32.
\<close>

definition isWhiteSpace :: "char \<Rightarrow> bool" where
  "isWhiteSpace c = ((of_char c :: nat) \<in> {9, 10, 11, 12, 13, 32, 160})"

definition trim :: "string \<Rightarrow> string" where
  "trim s = rev (dropWhile isWhiteSpace (rev (dropWhile isWhiteSpace s)))"

definition toLowerCase :: "string \<Rightarrow> string" where
  "toLowerCase s =
     map (\<lambda>c. let n = (of_char c :: nat)
              in if (65 \<le> n \<and> n \<le> 90) \<or> (192 \<le> n \<and> n \<le> 222 \<and> n \<noteq> 215)
                 then char_of (n + 32) else c) s"

definition endsWith :: "string \<Rightarrow> string \<Rightarrow> bool" where
  "endsWith s suffix =
     (length suffix \<le> length s \<and> drop (length s - length suffix) s = suffix)"

text \<open>\<^verbatim>\<open>s.split(sep)\<close> for a separator of one character; \<open>cur\<close> is the piece being read.\<close>

fun splitOn :: "char \<Rightarrow> string \<Rightarrow> string \<Rightarrow> string list" where
  "splitOn sep cur [] = [cur]"
| "splitOn sep cur (c # rest) =
     (if c = sep then cur # splitOn sep [] rest else splitOn sep (cur @ [c]) rest)"

text \<open>\<^verbatim>\<open>content.split(/\r?\n/)\<close>: a line ends at LF, or at CR immediately followed by LF.\<close>

fun splitLines :: "string \<Rightarrow> string \<Rightarrow> string list" where
  "splitLines cur [] = [cur]"
| "splitLines cur (c # rest) =
     (if c = CHR 0x0A then cur # splitLines [] rest
      else if c = CHR 0x0D \<and> rest \<noteq> [] \<and> hd rest = CHR 0x0A then cur # splitLines [] (tl rest)
      else splitLines (cur @ [c]) rest)"

text \<open>\<^verbatim>\<open>xs.join(sep)\<close>.\<close>

fun join :: "string \<Rightarrow> string list \<Rightarrow> string" where
  "join sep [] = []"
| "join sep [x] = x"
| "join sep (x # y # ys) = x @ sep @ join sep (y # ys)"

definition doubleQuote :: char where
  "doubleQuote = CHR 0x22"

text \<open>
  \<^verbatim>\<open>s.replace(/^"|"$/g, '')\<close>: a double quote at the start is removed, and then a double
  quote at the end of what is left of the string.
\<close>

definition unquote :: "string \<Rightarrow> string" where
  "unquote s =
     (let s1 = (if s \<noteq> [] \<and> hd s = doubleQuote then tl s else s)
      in if s1 \<noteq> [] \<and> last s1 = doubleQuote then butlast s1 else s1)"

subsection \<open>CSV parser\<close>

text \<open>
  The loop of \<^verbatim>\<open>parseCSVLine\<close> over the characters of the line, with its three
  variables; at the end of the line the last value is pushed.
\<close>

fun scanCSVLine :: "string list \<Rightarrow> bool \<Rightarrow> string \<Rightarrow> string \<Rightarrow> string list" where
  "scanCSVLine values inQuote currentValue [] = values @ [trim currentValue]"
| "scanCSVLine values inQuote currentValue (char # rest) =
     (if char = doubleQuote then scanCSVLine values (\<not> inQuote) currentValue rest
      else if char = CHR '','' \<and> \<not> inQuote
           then scanCSVLine (values @ [trim currentValue]) inQuote [] rest
      else scanCSVLine values inQuote (currentValue @ [char]) rest)"

definition parseCSVLine :: "string \<Rightarrow> string list" where
  "parseCSVLine line = scanCSVLine [] False [] line"

text \<open>
  The values a field of a row object takes: \<^verbatim>\<open>undefined\<close>, a string, a number, or an
  array of numbers. The number type \<open>'n\<close> is whatever \<^verbatim>\<open>parseFloat\<close> returns. A row
  object is the map from the names of its own properties to their values.
\<close>

datatype 'n field_value = Undefined | Str string | Num 'n | Nums "'n list"

type_synonym 'n row = "string \<rightharpoonup> 'n field_value"

text \<open>
  \<^verbatim>\<open>parseFloat(val) || 0\<close>. The parameter \<open>parseFloat\<close> answers \<open>None\<close> for NaN;
  \<^verbatim>\<open>parseFloat(undefined)\<close> is NaN. NaN and 0 are the numbers \<^verbatim>\<open>||\<close> replaces by 0.
\<close>

definition parseFloatOr0 :: "(string \<Rightarrow> 'n option) \<Rightarrow> string option \<Rightarrow> 'n::zero" where
  "parseFloatOr0 parseFloat val =
     (case val of
        None \<Rightarrow> 0
      | Some s \<Rightarrow> (case parseFloat s of None \<Rightarrow> 0 | Some x \<Rightarrow> x))"

text \<open>
  The body of \<^verbatim>\<open>headers.forEach\<close>: \<open>val\<close> is \<^verbatim>\<open>values[i]?.replace(/^"|"$/g, '')\<close>,
  \<open>None\<close> when the row has no value at index \<open>i\<close>. The test \<^verbatim>\<open>val ? ... : []\<close> fails
  for \<^verbatim>\<open>undefined\<close> and for the empty string. The last assignment,
  \<^verbatim>\<open>obj[h] = val\<close>, creates no property when \<open>h\<close> is \<^verbatim>\<open>__proto__\<close>: it calls the setter of
  \<^verbatim>\<open>Object.prototype\<close>, which does nothing with a string or with \<^verbatim>\<open>undefined\<close>. Every
  other name becomes an own property of the object.
\<close>

definition setField ::
  "(string \<Rightarrow> 'n option) \<Rightarrow> string list \<Rightarrow> nat \<times> string \<Rightarrow> 'n row \<Rightarrow> ('n::zero) row" where
  "setField parseFloat values ih obj =
     (let i = fst ih; h = snd ih;
          val = (if i < length values then Some (unquote (values ! i)) else None)
      in if h \<in> set [''original_amount'', ''amount_paid'', ''balance_due'', ''amount'']
         then obj(h \<mapsto> Num (parseFloatOr0 parseFloat val))
         else if h = ''risk_score_history''
         then obj(h \<mapsto>
                (case val of
                   None \<Rightarrow> Nums []
                 | Some s \<Rightarrow>
                     if s = [] then Nums []
                     else Nums (map (\<lambda>n. parseFloatOr0 parseFloat (Some n))
                                 (splitOn CHR '';'' [] s))))
         else if h = ''__proto__'' then obj
         else obj(h \<mapsto> (case val of None \<Rightarrow> Undefined | Some s \<Rightarrow> Str s)))"

definition rowObject :: "(string \<Rightarrow> 'n option) \<Rightarrow> string list \<Rightarrow> string \<Rightarrow> ('n::zero) row" where
  "rowObject parseFloat headers line =
     fold (setField parseFloat (parseCSVLine line)) (enumerate 0 headers) Map.empty"

record 'n csv =
  headers :: "string list"
  data :: "'n row list"

text \<open>The non-blank lines of the content, the variable \<^verbatim>\<open>lines\<close>.\<close>

definition csvLines :: "string \<Rightarrow> string list" where
  "csvLines content = filter (\<lambda>l. trim l \<noteq> []) (splitLines [] content)"

definition parseCSVData :: "(string \<Rightarrow> 'n option) \<Rightarrow> string \<Rightarrow> ('n::zero) csv" where
  "parseCSVData parseFloat content =
     (let lines = csvLines content
      in if length lines < 2 then \<lparr>headers = [], data = []\<rparr>
         else
           let headers = map (\<lambda>h. toLowerCase (unquote (trim h)))
                           (splitOn CHR '','' [] (lines ! 0))
           in \<lparr>headers = headers,
               data = map (rowObject parseFloat headers) (drop 1 lines)\<rparr>)"

subsection \<open>Upload handler\<close>

datatype ViewState = DASHBOARD | COMPLIANCE | AGING | AI_RISK | UPLOAD

text \<open>
  A value of \<^verbatim>\<open>JSON.parse\<close>. An object is the list of its properties; a property that
  is not there reads as \<^verbatim>\<open>undefined\<close>, here \<open>None\<close>.
\<close>

datatype 'n json =
  JNull | JBool bool | JNumber 'n | JString string
  | JArray "'n json list" | JObject "(string \<times> 'n json) list"

text \<open>
  The primary sets of the application state hold whatever the handler stores: the rows of
  a CSV file, or the value found in a JSON document, verbatim.
\<close>

datatype 'n dataset = Records "'n row list" | Verbatim "'n json"

record 'n app_state =
  transactions :: "'n dataset"
  invoices :: "'n dataset"
  customers :: "'n dataset"
  coa :: "'n dataset"
  currentView :: ViewState

record upload_file =
  file_name :: string
  file_text :: string

datatype setter = setTransactions | setInvoices | setCustomers | setCoa

text \<open>\<^verbatim>\<open>json.key\<close>, for a value that is not \<^verbatim>\<open>null\<close>, and the truth of a value.\<close>

definition property :: "'n json \<Rightarrow> string \<Rightarrow> 'n json option" where
  "property json key = (case json of JObject kvs \<Rightarrow> map_of kvs key | _ \<Rightarrow> None)"

definition truthy :: "('n::zero) json option \<Rightarrow> bool" where
  "truthy v =
     (case v of
        None \<Rightarrow> False
      | Some JNull \<Rightarrow> False
      | Some (JBool b) \<Rightarrow> b
      | Some (JNumber n) \<Rightarrow> n \<noteq> 0
      | Some (JString s) \<Rightarrow> s \<noteq> []
      | Some _ \<Rightarrow> True)"

text \<open>
  The body of the loop over the files calls a setter and pushes a label, in pairs.
  \<open>fileLoads\<close> is the list of these pairs for one file, in the order the body makes
  them: the setter, the value it is called with and the label pushed.

  For a \<^verbatim>\<open>.json\<close> file, \<open>JSON_parse\<close> answers \<open>None\<close> when \<^verbatim>\<open>JSON.parse\<close> throws; on
  \<^verbatim>\<open>null\<close> the first property read throws. Both are caught, before any setter is
  called. A file that is neither \<^verbatim>\<open>.json\<close> nor \<^verbatim>\<open>.csv\<close> is skipped.
\<close>

definition jsonLoad :: "('n::zero) json \<Rightarrow> string \<Rightarrow> setter \<Rightarrow> string \<Rightarrow> (setter \<times> 'n dataset \<times> string) list" where
  "jsonLoad json key set_it label =
     (case property json key of
        None \<Rightarrow> []
      | Some v \<Rightarrow> if truthy (Some v) then [(set_it, Verbatim v, label)] else [])"

definition fileLoads ::
  "(string \<Rightarrow> 'n json option) \<Rightarrow> (string \<Rightarrow> 'n option) \<Rightarrow> upload_file \<Rightarrow>
   (setter \<times> ('n::zero) dataset \<times> string) list" where
  "fileLoads JSON_parse parseFloat file =
     (if endsWith (file_name file) ''.json'' then
        (case JSON_parse (file_text file) of
           None \<Rightarrow> []
         | Some JNull \<Rightarrow> []
         | Some json \<Rightarrow>
             jsonLoad json ''transactions'' setTransactions ''Transactions (JSON)'' @
             jsonLoad json ''invoices'' setInvoices ''Invoices (JSON)'' @
             jsonLoad json ''customers'' setCustomers ''Customers (JSON)'' @
             jsonLoad json ''coa'' setCoa ''COA (JSON)'')
      else if endsWith (file_name file) ''.csv'' then
        (let csv = parseCSVData parseFloat (file_text file)
         in if ''account_id'' \<in> set (headers csv) \<and> ''account_type'' \<in> set (headers csv)
            then [(setCoa, Records (data csv), ''COA (CSV)'')]
            else if ''customer_id'' \<in> set (headers csv) \<and>
                    ''risk_score_history'' \<in> set (headers csv)
            then [(setCustomers, Records (data csv), ''Customers (CSV)'')]
            else if ''invoice_id'' \<in> set (headers csv) \<and> ''balance_due'' \<in> set (headers csv)
            then [(setInvoices, Records (data csv), ''Invoices (CSV)'')]
            else if ''transaction_id'' \<in> set (headers csv) \<and>
                    ''debit_account_id'' \<in> set (headers csv)
            then [(setTransactions, Records (data csv), ''Transactions (CSV)'')]
            else [])
      else [])"

text \<open>One pair performed: the set is replaced and the label joins \<^verbatim>\<open>loadedInfo\<close>.\<close>

definition applyLoad ::
  "setter \<times> 'n dataset \<times> string \<Rightarrow> 'n app_state \<times> string list \<Rightarrow> 'n app_state \<times> string list" where
  "applyLoad ld acc =
     (let st = fst acc; loadedInfo = snd acc; v = fst (snd ld); label = snd (snd ld)
      in ((case fst ld of
             setTransactions \<Rightarrow> st\<lparr>transactions := v\<rparr>
           | setInvoices \<Rightarrow> st\<lparr>invoices := v\<rparr>
           | setCustomers \<Rightarrow> st\<lparr>customers := v\<rparr>
           | setCoa \<Rightarrow> st\<lparr>coa := v\<rparr>),
          loadedInfo @ [label]))"

definition uploadFile ::
  "(string \<Rightarrow> 'n json option) \<Rightarrow> (string \<Rightarrow> 'n option) \<Rightarrow> upload_file \<Rightarrow>
   ('n::zero) app_state \<times> string list \<Rightarrow> 'n app_state \<times> string list" where
  "uploadFile JSON_parse parseFloat file acc =
     fold applyLoad (fileLoads JSON_parse parseFloat file) acc"

text \<open>
  The handler: the new state and the text of the alert, \<open>None\<close> when the handler
  returns at once because there is no file.
\<close>

definition handleFileUpload ::
  "(string \<Rightarrow> 'n json option) \<Rightarrow> (string \<Rightarrow> 'n option) \<Rightarrow> upload_file list \<Rightarrow>
   ('n::zero) app_state \<Rightarrow> 'n app_state \<times> string option" where
  "handleFileUpload JSON_parse parseFloat files st =
     (if files = [] then (st, None)
      else
        let acc = fold (uploadFile JSON_parse parseFloat) files (st, []);
            loadedInfo = snd acc
        in if length loadedInfo > 0
           then ((fst acc)\<lparr>currentView := DASHBOARD\<rparr>,
                 Some (''Successfully loaded: '' @ join '', '' loadedInfo))
           else (fst acc, Some ''No recognized data found. Please check CSV headers.''))"

subsection \<open>What the specification says of the parser and of the upload\<close>

text \<open>
  A comma of the line is a separator when it is outside the quoted spans, that is when
  the number of double quotes before it is even.
\<close>

definition quotes_before :: "string \<Rightarrow> nat \<Rightarrow> nat" where
  "quotes_before line i = length (filter (\<lambda>c. c = doubleQuote) (take i line))"

definition separator :: "string \<Rightarrow> nat \<Rightarrow> bool" where
  "separator line i = (line ! i = CHR '','' \<and> even (quotes_before line i))"

definition separators :: "string \<Rightarrow> nat list" where
  "separators line = filter (separator line) [0..<length line]"

text \<open>
  The line cut at the positions \<open>ps\<close>, from position \<open>a\<close> on: the pieces between
  them, without the characters at these positions.
\<close>

fun cut :: "nat \<Rightarrow> nat list \<Rightarrow> string \<Rightarrow> string list" where
  "cut a [] line = [drop a line]"
| "cut a (p # ps) line = take (p - a) (drop a line) # cut (Suc p) ps line"

text \<open>
  The values of a line: the line is cut at its separators, and each piece loses its
  double quotes and then the white space around it.
\<close>

definition csv_fields :: "string \<Rightarrow> string list" where
  "csv_fields line =
     map (\<lambda>seg. trim (filter (\<lambda>c. c \<noteq> doubleQuote) seg)) (cut 0 (separators line) line)"




text \<open>
  The signatures of the four record types, each named by the setter of its primary set,
  and the label the handler pushes for it.
\<close>

definition signature :: "setter \<Rightarrow> string list \<Rightarrow> bool" where
  "signature k hs =
     (case k of
        setCoa \<Rightarrow> ''account_id'' \<in> set hs \<and> ''account_type'' \<in> set hs
      | setCustomers \<Rightarrow> ''customer_id'' \<in> set hs \<and> ''risk_score_history'' \<in> set hs
      | setInvoices \<Rightarrow> ''invoice_id'' \<in> set hs \<and> ''balance_due'' \<in> set hs
      | setTransactions \<Rightarrow> ''transaction_id'' \<in> set hs \<and> ''debit_account_id'' \<in> set hs)"

definition csv_label :: "setter \<Rightarrow> string" where
  "csv_label k =
     (case k of
        setCoa \<Rightarrow> ''COA (CSV)''
      | setCustomers \<Rightarrow> ''Customers (CSV)''
      | setInvoices \<Rightarrow> ''Invoices (CSV)''
      | setTransactions \<Rightarrow> ''Transactions (CSV)'')"

text \<open>The first signature that matches, in the order Accounts, Customers, Invoices, Transactions.\<close>

definition classify :: "string list \<Rightarrow> setter option" where
  "classify hs = find (\<lambda>k. signature k hs) [setCoa, setCustomers, setInvoices, setTransactions]"

text \<open>The primary sets of two states that differ.\<close>

definition changed_sets :: "'n app_state \<Rightarrow> 'n app_state \<Rightarrow> setter list" where
  "changed_sets st st' =
     (if transactions st' \<noteq> transactions st then [setTransactions] else []) @
     (if invoices st' \<noteq> invoices st then [setInvoices] else []) @
     (if customers st' \<noteq> customers st then [setCustomers] else []) @
     (if coa st' \<noteq> coa st then [setCoa] else [])"

subsection \<open>Stand-ins for the built-ins, for concrete inputs\<close>

text \<open>
  \<open>parseFloat_digits\<close> is \<^verbatim>\<open>parseFloat\<close> on the strings the examples below give it: a
  string of decimal digits is its number; the empty string, and a string that starts with
  a letter and is not \<^verbatim>\<open>Infinity\<close>, is NaN. \<open>JSON_parse_fails\<close> is \<^verbatim>\<open>JSON.parse\<close> on
  a text that is not JSON.
\<close>

definition parseFloat_digits :: "string \<Rightarrow> rat option" where
  "parseFloat_digits s = (if s = [] then None else map_option of_nat (decimalValue 0 s))"

definition JSON_parse_fails :: "string \<Rightarrow> rat json option" where
  "JSON_parse_fails s = None"

text \<open>A state for the concrete inputs: every primary set without records.\<close>

definition blank_state :: "rat app_state" where
  "blank_state =
     \<lparr>transactions = Records [], invoices = Records [], customers = Records [],
      coa = Records [], currentView = UPLOAD\<rparr>"



text \<open>
  More files for the concrete inputs: the headers of a chart of accounts alone; a file
  whose headers hold the pairs of Accounts and of Customers; one whose headers hold the
  pairs of Customers and of Invoices; one with no known header; and a text that is not
  JSON under a \<^verbatim>\<open>.json\<close> name.
\<close>

definition header_only_csv :: upload_file where
  "header_only_csv =
     \<lparr>file_name = ''coa.csv'', file_text = ''account_id,account_name,account_type''\<rparr>"

definition accounts_customers_csv :: upload_file where
  "accounts_customers_csv =
     \<lparr>file_name = ''master.csv'',
      file_text = ''account_id,account_type,customer_id,risk_score_history'' @ [CHR 0x0A] @
                  ''1100,Asset,CUST-001,10;12''\<rparr>"

definition customers_invoices_csv :: upload_file where
  "customers_invoices_csv =
     \<lparr>file_name = ''ledger.csv'',
      file_text = ''Invoice_ID,Customer_ID,Balance_Due,Risk_Score_History'' @ [CHR 0x0D, CHR 0x0A] @
                  ''INV-1001,CUST-001,5000,10;12''\<rparr>"

definition unknown_csv :: upload_file where
  "unknown_csv =
     \<lparr>file_name = ''notes.csv'', file_text = ''foo,bar'' @ [CHR 0x0A] @ ''1,2''\<rparr>"

definition broken_json :: upload_file where
  "broken_json = \<lparr>file_name = ''data.json'', file_text = ''{transactions''\<rparr>"

definition readme_txt :: upload_file where
  "readme_txt = \<lparr>file_name = ''readme.txt'', file_text = ''account_id,account_type''\<rparr>"

text \<open>
  A number type whose product rounds, to tell one product of a total from a sum of
  products: amounts in tenths, \<open>Tenths n\<close> being \<open>n / 10\<close>, with the exact sum and with
  the product rounded down to a tenth. A literal is rounded down to a tenth as well.
\<close>

datatype tenths = Tenths nat

instantiation tenths :: "{zero,plus,times,ord}"
begin

definition zero_tenths :: tenths where
  "zero_tenths = Tenths 0"

definition plus_tenths :: "tenths \<Rightarrow> tenths \<Rightarrow> tenths" where
  "plus_tenths a b = (case a of Tenths x \<Rightarrow> (case b of Tenths y \<Rightarrow> Tenths (x + y)))"

definition times_tenths :: "tenths \<Rightarrow> tenths \<Rightarrow> tenths" where
  "times_tenths a b = (case a of Tenths x \<Rightarrow> (case b of Tenths y \<Rightarrow> Tenths ((x * y) div 10)))"

definition less_eq_tenths :: "tenths \<Rightarrow> tenths \<Rightarrow> bool" where
  "less_eq_tenths a b = (case a of Tenths x \<Rightarrow> (case b of Tenths y \<Rightarrow> x \<le> y))"

definition less_tenths :: "tenths \<Rightarrow> tenths \<Rightarrow> bool" where
  "less_tenths a b = (case a of Tenths x \<Rightarrow> (case b of Tenths y \<Rightarrow> x < y))"

instance ..

end

definition tenths_literal :: "rat \<Rightarrow> tenths" where
  "tenths_literal q = Tenths (nat \<lfloor>q * 10\<rfloor>)"

text \<open>Two invoices of 0.3 each, both due 2023-12-31.\<close>

definition two_late_invoices :: "tenths Invoice list" where
  "two_late_invoices =
     [\<lparr>invoice_id = ''INV-A'', customer_id = ''CUST-002'', invoice_date = ''2023-12-01'',
       due_date = ''2023-12-31'', original_amount = Tenths 3, amount_paid = Tenths 0,
       balance_due = Tenths 3, status = ''Open''\<rparr>,
      \<lparr>invoice_id = ''INV-B'', customer_id = ''CUST-002'', invoice_date = ''2023-12-01'',
       due_date = ''2023-12-31'', original_amount = Tenths 3, amount_paid = Tenths 0,
       balance_due = Tenths 3, status = ''Open''\<rparr>]"

section \<open>Properties\<close>

subsection \<open>Compliance check\<close>

lemma checkTransaction_append: "checkTransaction S txn issues = issues @ issues_of S txn"
  by (simp add: checkTransaction_def issues_of_def Let_def)

lemma fold_checkTransaction:
  "fold (checkTransaction S) txns issues = issues @ concat (map (issues_of S) txns)"
  by (induction txns arbitrary: issues) (simp_all add: checkTransaction_append)

text \<open>
  Claim C2. The issues come in the order of the transactions: the result is the
  concatenation, transaction by transaction, of that transaction's issues. One
  transaction gives at most two issues, all of severity High and all carrying its id; the
  debit side gives an \<open>Invalid Debit Account\<close> issue exactly when the debit account is not
  in the chart, the credit side an \<open>Invalid Credit Account\<close> issue exactly when the credit
  account is not, the debit issue first; with both absent there are exactly two.
\<close>

theorem checkCoaCompliance_issues:
  "checkCoaCompliance txns accounts =
     concat (map (issues_of (set (map account_id accounts))) txns) \<and>
   length (issues_of S txn) \<le> 2 \<and>
   map severity (issues_of S txn) = replicate (length (issues_of S txn)) ''High'' \<and>
   map issue_transaction_id (issues_of S txn) =
     replicate (length (issues_of S txn)) (transaction_id txn) \<and>
   map issue_type (issues_of S txn) =
     (if debit_account_id txn \<in> S then [] else [''Invalid Debit Account'']) @
     (if credit_account_id txn \<in> S then [] else [''Invalid Credit Account'']) \<and>
   (debit_account_id txn \<notin> S \<and> credit_account_id txn \<notin> S \<longrightarrow>
      map (\<lambda>i. (issue_type i, severity i)) (issues_of S txn) =
        [(''Invalid Debit Account'', ''High''), (''Invalid Credit Account'', ''High'')])"
  by (simp add: checkCoaCompliance_def fold_checkTransaction issues_of_def)

theorem checkCoaCompliance_issues_witness:
  "''9999'' \<notin> set (map account_id [\<lparr>account_id = ''1100'', account_name = ''Cash'', account_type = ''Asset''\<rparr>]) \<and>
   ''4005'' \<notin> set (map account_id [\<lparr>account_id = ''1100'', account_name = ''Cash'', account_type = ''Asset''\<rparr>]) \<and>
   map (\<lambda>i. (issue_transaction_id i, issue_type i, severity i))
     (checkCoaCompliance
        [\<lparr>transaction_id = ''TXN-ERR'', transaction_date = ''2024-05-02'',
          debit_account_id = ''9999'', credit_account_id = ''4005'', amount = (1500::rat),
          reference_invoice_id = None, description = ''Suspicious Adjustment''\<rparr>]
        [\<lparr>account_id = ''1100'', account_name = ''Cash'', account_type = ''Asset''\<rparr>]) =
     [(''TXN-ERR'', ''Invalid Debit Account'', ''High''),
      (''TXN-ERR'', ''Invalid Credit Account'', ''High'')]"
  using checkCoaCompliance_issues
    [of "[\<lparr>transaction_id = ''TXN-ERR'', transaction_date = ''2024-05-02'',
          debit_account_id = ''9999'', credit_account_id = ''4005'', amount = (1500::rat),
          reference_invoice_id = None, description = ''Suspicious Adjustment''\<rparr>]"
        "[\<lparr>account_id = ''1100'', account_name = ''Cash'', account_type = ''Asset''\<rparr>]"
        "{''1100''}"
        "\<lparr>transaction_id = ''TXN-ERR'', transaction_date = ''2024-05-02'',
          debit_account_id = ''9999'', credit_account_id = ''4005'', amount = (1500::rat),
          reference_invoice_id = None, description = ''Suspicious Adjustment''\<rparr>"]
  by (simp add: issues_of_def)

subsection \<open>Aging and allowance\<close>

lemma bucketIndex_lt5: "bucketIndex d < 5"
  by (simp add: bucketIndex_def split: option.split)

lemma map_update_same: "(map f xs)[i := f (xs ! i)] = map f xs"
  by (simp add: map_update [symmetric])

lemma length_ageInvoice: "length (ageInvoice P R iv bs) = length bs"
  by (simp add: ageInvoice_def Let_def)

lemma length_fold_age: "length (fold (ageInvoice P R) ivs bs) = length bs"
  by (induction ivs arbitrary: bs) (simp_all add: length_ageInvoice)

text \<open>The loop changes neither a label, nor a rate, nor an estimated allowance.\<close>

lemma ageInvoice_static:
  "map bucket (ageInvoice P R iv bs) = map bucket bs"
  "map allowance_rate (ageInvoice P R iv bs) = map allowance_rate bs"
  "map estimated_allowance (ageInvoice P R iv bs) = map estimated_allowance bs"
  by (simp_all add: ageInvoice_def Let_def map_update map_update_same)

lemma fold_age_static:
  "map bucket (fold (ageInvoice P R) ivs bs) = map bucket bs \<and>
   map allowance_rate (fold (ageInvoice P R) ivs bs) = map allowance_rate bs \<and>
   map estimated_allowance (fold (ageInvoice P R) ivs bs) = map estimated_allowance bs"
  by (induction ivs arbitrary: bs) (simp_all add: ageInvoice_static)

text \<open>The source's \<^verbatim>\<open>diffDays\<close> is the age of the specification.\<close>

lemma age_in_days_eq:
  "diffDays (diffTime (P ref) (P (due_date iv))) = age_in_days P ref iv"
  by (simp add: diffDays_def diffTime_def age_in_days_def split: option.split)

text \<open>The \<^verbatim>\<open>if\<close> chain of the source against the table of the specification.\<close>

lemma bucketIndex_range:
  "k < 5 \<Longrightarrow> (bucketIndex a = k) = (case a of None \<Rightarrow> k = 4 | Some d \<Rightarrow> in_age_range k d)"
  by (cases a) (auto simp add: bucketIndex_def in_age_range_def)

text \<open>
  One invoice, by the loop's own test and index. No law of the order or of the sum is
  used: the step is the source's, whatever its arithmetic.
\<close>

lemma ageInvoice_count:
  assumes "k < length bs"
  shows "invoice_count (ageInvoice P (P ref) iv bs ! k) =
         invoice_count (bs ! k) + (if added_to P ref k iv then 1 else 0)"
  using assms
  by (auto simp add: ageInvoice_def Let_def added_to_def age_in_days_eq nth_list_update)

lemma ageInvoice_total:
  assumes "k < length bs"
  shows "total_amount (ageInvoice P (P ref) iv bs ! k) =
         (if added_to P ref k iv then total_amount (bs ! k) + balance_due iv
          else total_amount (bs ! k))"
  using assms
  by (auto simp add: ageInvoice_def Let_def added_to_def age_in_days_eq nth_list_update)

lemma fold_age_count:
  "k < length bs \<Longrightarrow>
   invoice_count (fold (ageInvoice P (P ref)) ivs bs ! k) =
   invoice_count (bs ! k) + length (filter (added_to P ref k) ivs)"
  by (induction ivs arbitrary: bs) (simp_all add: ageInvoice_count length_ageInvoice)

lemma fold_age_total:
  "k < length bs \<Longrightarrow>
   total_amount (fold (ageInvoice P (P ref)) ivs bs ! k) =
   foldl (+) (total_amount (bs ! k)) (map balance_due (filter (added_to P ref k) ivs))"
  by (induction ivs arbitrary: bs) (simp_all add: ageInvoice_total length_ageInvoice)

lemma length_accumulate: "length (accumulate L P ivs ref) = 5"
  by (simp add: accumulate_def length_fold_age initial_buckets_def)

lemma accumulate_count:
  "k < 5 \<Longrightarrow>
   invoice_count (accumulate L P ivs ref ! k) = length (filter (added_to P ref k) ivs)"
  by (simp add: accumulate_def fold_age_count initial_buckets_def nth_Cons')

lemma accumulate_total:
  "k < 5 \<Longrightarrow>
   total_amount (accumulate L P ivs ref ! k) =
   running_total (map balance_due (filter (added_to P ref k) ivs))"
  by (simp add: accumulate_def fold_age_total initial_buckets_def nth_Cons' running_total_def)

lemma upt5: "[0..<5] = [0, 1, 2, 3, 4]"
  by (simp add: upt_rec)

lemma accumulate_counts:
  "map invoice_count (accumulate L P ivs ref) =
   map (\<lambda>k. length (filter (added_to P ref k) ivs)) [0..<5]"
  by (rule nth_equalityI) (simp_all add: length_accumulate accumulate_count)

lemma accumulate_totals:
  "map total_amount (accumulate L P ivs ref) =
   map (\<lambda>k. running_total (map balance_due (filter (added_to P ref k) ivs))) [0..<5]"
  by (rule nth_equalityI) (simp_all add: length_accumulate accumulate_total)

lemma accumulate_rates:
  "map allowance_rate (accumulate L P ivs ref) =
   map L [1 / 100, 5 / 100, 10 / 100, 25 / 100, 50 / 100]"
  by (simp add: accumulate_def fold_age_static initial_buckets_def)

lemma accumulate_allowances:
  "map estimated_allowance (accumulate L P ivs ref) = [0, 0, 0, 0, 0]"
  by (simp add: accumulate_def fold_age_static initial_buckets_def)

text \<open>
  Where the order is linear, the loop's test \<^verbatim>\<open>balance_due <= 0\<close> fails exactly for a
  positive balance, and its index is the specification's table.
\<close>

lemma lands_added_to:
  fixes iv :: "('n::{zero,linorder}) Invoice"
  shows "k < 5 \<Longrightarrow> lands P ref k iv = added_to P ref k iv"
  by (simp add: lands_def added_to_def bucketIndex_range not_le)

lemma filter_lands:
  fixes ivs :: "('n::{zero,linorder}) Invoice list"
  shows "k < 5 \<Longrightarrow> filter (lands P ref k) ivs = filter (added_to P ref k) ivs"
  by (rule filter_cong) (simp_all add: lands_added_to)

text \<open>Over numbers whose sum is associative with unit 0, the running total is the sum.\<close>

lemma foldl_plus_sum_list: "foldl (+) a xs = a + sum_list (xs :: 'a::monoid_add list)"
  by (induction xs arbitrary: a) (simp_all add: add.assoc)

lemma running_total_sum_list: "running_total xs = sum_list (xs :: 'a::monoid_add list)"
  by (simp add: running_total_def foldl_plus_sum_list)

text \<open>
  Claim C1. Whatever the invoices, the reference date and the reading of dates, the
  result has the five buckets Current, 1-30 Days, 31-60 Days, 61-90 Days, 90+ Days in this
  order. Bucket \<open>k\<close> counts exactly the invoices with a positive balance whose age
  \<open>ceil((referenceDate - due_date) / 1 day)\<close> is in its range (\<open>\<le> 0\<close>, 1 to 30, 31 to
  60, 61 to 90, \<open>> 90\<close>), and its total is their balances added up in the order of the
  list; an invoice with a positive balance is one of exactly one bucket, an invoice
  without is one of none. Where a date is invalid the age is NaN and the invoice is one
  of the last bucket. The numbers are of any type with a linear order; nothing is
  assumed of their sum.
\<close>

theorem calculateAllowance_partition:
  fixes ivs :: "('n::{zero,plus,times,linorder}) Invoice list" and iv :: "'n Invoice"
  shows
  "map bucket (calculateAllowance literal Date_parse ivs referenceDateStr) =
     [''Current'', ''1-30 Days'', ''31-60 Days'', ''61-90 Days'', ''90+ Days''] \<and>
   map invoice_count (calculateAllowance literal Date_parse ivs referenceDateStr) =
     map (\<lambda>k. length (filter (lands Date_parse referenceDateStr k) ivs)) [0..<5] \<and>
   map total_amount (calculateAllowance literal Date_parse ivs referenceDateStr) =
     map (\<lambda>k. running_total
                 (map balance_due (filter (lands Date_parse referenceDateStr k) ivs)))
       [0..<5] \<and>
   length (filter (\<lambda>k. lands Date_parse referenceDateStr k iv) [0..<5]) =
     (if 0 < balance_due iv then 1 else 0)"
proof -
  let ?res = "calculateAllowance literal Date_parse ivs referenceDateStr"
  have "map bucket ?res = map bucket (accumulate literal Date_parse ivs referenceDateStr)"
    by (simp add: calculateAllowance_def comp_def)
  then have labels: "map bucket ?res =
      [''Current'', ''1-30 Days'', ''31-60 Days'', ''61-90 Days'', ''90+ Days'']"
    by (simp add: accumulate_def fold_age_static initial_buckets_def)
  have counts: "map invoice_count ?res =
      map (\<lambda>k. length (filter (lands Date_parse referenceDateStr k) ivs)) [0..<5]"
    by (simp add: calculateAllowance_def comp_def accumulate_counts filter_lands)
  have totals: "map total_amount ?res =
      map (\<lambda>k. running_total
                  (map balance_due (filter (lands Date_parse referenceDateStr k) ivs)))
        [0..<5]"
    by (simp add: calculateAllowance_def comp_def accumulate_totals filter_lands)
  have "bucketIndex (age_in_days Date_parse referenceDateStr iv) < 5"
    by (rule bucketIndex_lt5)
  then have "bucketIndex (age_in_days Date_parse referenceDateStr iv) \<in> {0, 1, 2, 3, 4}"
    by auto
  then have once: "length (filter (\<lambda>k. lands Date_parse referenceDateStr k iv) [0..<5]) =
      (if 0 < balance_due iv then 1 else 0)"
    by (auto simp add: upt5 lands_added_to added_to_def not_le)
  from labels counts totals once show ?thesis by blast
qed

text \<open>
  Claim C3. For every arithmetic of the numbers (no law of \<open>+\<close>, \<open>*\<close> or \<open>\<le>\<close> is
  used, so for the rounded arithmetic of doubles too): in the result each bucket's
  estimated allowance is the one product of its total amount and its rate, the rates
  being the numbers that the literals 0.01, 0.05, 0.10, 0.25 and 0.50 denote, in the
  order of the buckets. The total is the running total of the balances the loop adds to
  the bucket, so the allowance is that accumulated total times the rate, and not a sum of
  products made invoice by invoice. The multiplication is the last pass only: after the
  loop over the invoices every estimated allowance is still 0, and the last pass leaves
  the totals as the loop made them.
\<close>

theorem calculateAllowance_estimated_allowance:
  fixes ivs :: "('n::{zero,plus,times,ord}) Invoice list"
  shows
  "map estimated_allowance (calculateAllowance literal Date_parse ivs referenceDateStr) =
     map (\<lambda>b. total_amount b * allowance_rate b)
       (calculateAllowance literal Date_parse ivs referenceDateStr) \<and>
   map allowance_rate (calculateAllowance literal Date_parse ivs referenceDateStr) =
     map literal [1 / 100, 5 / 100, 10 / 100, 25 / 100, 50 / 100] \<and>
   map total_amount (calculateAllowance literal Date_parse ivs referenceDateStr) =
     map (\<lambda>k. running_total
                 (map balance_due (filter (added_to Date_parse referenceDateStr k) ivs)))
       [0..<5] \<and>
   map estimated_allowance (calculateAllowance literal Date_parse ivs referenceDateStr) =
     map (\<lambda>k. running_total
                 (map balance_due (filter (added_to Date_parse referenceDateStr k) ivs)) *
               literal ([1 / 100, 5 / 100, 10 / 100, 25 / 100, 50 / 100] ! k))
       [0..<5] \<and>
   map estimated_allowance (accumulate literal Date_parse ivs referenceDateStr) =
     [0, 0, 0, 0, 0] \<and>
   map total_amount (calculateAllowance literal Date_parse ivs referenceDateStr) =
     map total_amount (accumulate literal Date_parse ivs referenceDateStr)"
proof -
  let ?acc = "accumulate literal Date_parse ivs referenceDateStr"
  let ?res = "calculateAllowance literal Date_parse ivs referenceDateStr"
  let ?total = "\<lambda>k. running_total
      (map balance_due (filter (added_to Date_parse referenceDateStr k) ivs))"
  let ?rates = "[1 / 100, 5 / 100, 10 / 100, 25 / 100, 50 / 100] :: rat list"
  have product: "map estimated_allowance ?res = map (\<lambda>b. total_amount b * allowance_rate b) ?res"
    by (simp add: calculateAllowance_def comp_def)
  have rates: "map allowance_rate ?res = map literal ?rates"
    by (simp add: calculateAllowance_def comp_def accumulate_rates)
  have same: "map total_amount ?res = map total_amount ?acc"
    by (simp add: calculateAllowance_def comp_def)
  have totals: "map total_amount ?res = map ?total [0..<5]"
    by (simp add: same accumulate_totals)
  have len: "length ?res = 5"
    by (simp add: calculateAllowance_def length_accumulate)
  have nth: "estimated_allowance (?res ! k) = ?total k * literal (?rates ! k)" if "k < 5" for k
  proof -
    from that len have "estimated_allowance (?res ! k) = map estimated_allowance ?res ! k"
      by simp
    also have "\<dots> = total_amount (?res ! k) * allowance_rate (?res ! k)"
      using that len by (simp add: product)
    also have "total_amount (?res ! k) = map total_amount ?res ! k"
      using that len by simp
    also have "\<dots> = ?total k"
      using that by (simp add: totals)
    also have "allowance_rate (?res ! k) = map allowance_rate ?res ! k"
      using that len by simp
    also have "\<dots> = literal (?rates ! k)"
      using that by (simp add: rates del: list.map)
    finally show ?thesis .
  qed
  have final: "map estimated_allowance ?res = map (\<lambda>k. ?total k * literal (?rates ! k)) [0..<5]"
    by (rule nth_equalityI) (simp_all add: len nth)
  from product rates totals final same show ?thesis
    using accumulate_allowances [of literal Date_parse ivs referenceDateStr] by blast
qed

lemma ageInvoice_skip: "balance_due iv \<le> 0 \<Longrightarrow> ageInvoice P R iv bs = bs"
  by (simp add: ageInvoice_def)

text \<open>
  Claim C4. An invoice whose balance due is zero or negative changes nothing: with it or
  without it, at any place of the list and for any reference date, the result is the
  same list of buckets (totals, counts and estimated allowances included).
\<close>

theorem calculateAllowance_skips_nonpositive:
  "balance_due iv \<le> 0 \<Longrightarrow>
   calculateAllowance literal Date_parse (xs @ iv # ys) referenceDateStr =
   calculateAllowance literal Date_parse (xs @ ys) referenceDateStr"
  by (simp add: calculateAllowance_def accumulate_def ageInvoice_skip)

theorem calculateAllowance_skips_nonpositive_witness:
  "balance_due (MOCK_INVOICES ! 3) \<le> 0 \<and>
   calculateAllowance id Date_parse_iso MOCK_INVOICES ''2024-07-01'' =
   calculateAllowance id Date_parse_iso (take 3 MOCK_INVOICES) ''2024-07-01''"
proof -
  have paid: "balance_due (MOCK_INVOICES ! 3) \<le> 0"
    by (simp add: MOCK_INVOICES_def)
  have split: "MOCK_INVOICES = take 3 MOCK_INVOICES @ (MOCK_INVOICES ! 3) # []"
    by (simp add: MOCK_INVOICES_def)
  from calculateAllowance_skips_nonpositive
    [OF paid, of id Date_parse_iso "take 3 MOCK_INVOICES" "[]" "''2024-07-01''"]
  have "calculateAllowance id Date_parse_iso (take 3 MOCK_INVOICES @ (MOCK_INVOICES ! 3) # [])
          ''2024-07-01'' =
        calculateAllowance id Date_parse_iso (take 3 MOCK_INVOICES) ''2024-07-01''"
    by simp
  with split paid show ?thesis by simp
qed

subsection \<open>The scenarios at the reference date 2024-07-01\<close>

lemmas date_defs = Date_parse_iso_def digitValue_def DayFromYear_def DayWithinYear_def
  InLeapYear_def DaysInMonth_def msPerDay_def

lemma iso_0701: "Date_parse_iso ''2024-07-01'' = Some 1719792000000"
  by (simp add: date_defs)

lemma iso_0331: "Date_parse_iso ''2024-03-31'' = Some 1711843200000"
  by (simp add: date_defs)

lemma iso_0531: "Date_parse_iso ''2024-05-31'' = Some 1717113600000"
  by (simp add: date_defs)

lemma iso_1231: "Date_parse_iso ''2023-12-31'' = Some 1703980800000"
  by (simp add: date_defs)

lemma iso_0215: "Date_parse_iso ''2024-02-15'' = Some 1707955200000"
  by (simp add: date_defs)

lemmas aging_defs = calculateAllowance_def accumulate_def ageInvoice_def initial_buckets_def
  diffTime_def diffDays_def bucketIndex_def

text \<open>
  Claim C8. At the reference date 2024-07-01 an invoice due 2024-03-31 is 92 days old and
  is counted by the bucket 90+ Days (alone, it makes that bucket's count 1 and the others'
  0). An invoice due 2024-05-31 is 31 days old; with a balance due of 5000 and alone in
  the list, the bucket 31-60 Days has total 5000, count 1 and estimated allowance 500, and
  so it has for the mock invoices, where no other invoice is 31 to 60 days old. The
  amounts are evaluated as exact rationals, each literal read as itself; the sum
  \<open>0 + 5000\<close> and the product of 5000 and the rate come out the same in doubles.
\<close>

theorem calculateAllowance_scenarios:
  "age_in_days Date_parse_iso ''2024-07-01'' (iv\<lparr>due_date := ''2024-03-31''\<rparr>) = Some 92 \<and>
   lands Date_parse_iso ''2024-07-01'' 4
     (iv\<lparr>due_date := ''2024-03-31'', balance_due := 10000\<rparr>) \<and>
   map (\<lambda>b. (bucket b, invoice_count b))
     (calculateAllowance id Date_parse_iso
        [iv\<lparr>due_date := ''2024-03-31'', balance_due := 10000\<rparr>] ''2024-07-01'') =
     [(''Current'', 0), (''1-30 Days'', 0), (''31-60 Days'', 0), (''61-90 Days'', 0),
      (''90+ Days'', 1)] \<and>
   age_in_days Date_parse_iso ''2024-07-01'' (iv\<lparr>due_date := ''2024-05-31''\<rparr>) = Some 31 \<and>
   calculateAllowance id Date_parse_iso
       [iv\<lparr>due_date := ''2024-05-31'', balance_due := 5000\<rparr>] ''2024-07-01'' ! 2 =
     \<lparr>bucket = ''31-60 Days'', total_amount = 5000, invoice_count = 1,
      allowance_rate = 10 / 100, estimated_allowance = 500\<rparr> \<and>
   calculateAllowance id Date_parse_iso MOCK_INVOICES ''2024-07-01'' ! 2 =
     \<lparr>bucket = ''31-60 Days'', total_amount = 5000, invoice_count = 1,
      allowance_rate = 10 / 100, estimated_allowance = 500\<rparr>"
proof -
  have a: "age_in_days Date_parse_iso ''2024-07-01'' (iv\<lparr>due_date := ''2024-03-31''\<rparr>) = Some 92"
    by (simp add: age_in_days_def iso_0701 iso_0331)
  have a': "age_in_days Date_parse_iso ''2024-07-01''
      (iv\<lparr>due_date := ''2024-03-31'', balance_due := 10000\<rparr>) = Some 92"
    by (simp add: age_in_days_def iso_0701 iso_0331)
  have b: "lands Date_parse_iso ''2024-07-01'' 4
      (iv\<lparr>due_date := ''2024-03-31'', balance_due := 10000\<rparr>)"
    by (simp add: lands_def a' in_age_range_def)
  have c: "map (\<lambda>b. (bucket b, invoice_count b))
     (calculateAllowance id Date_parse_iso
        [iv\<lparr>due_date := ''2024-03-31'', balance_due := 10000\<rparr>] ''2024-07-01'') =
     [(''Current'', 0), (''1-30 Days'', 0), (''31-60 Days'', 0), (''61-90 Days'', 0),
      (''90+ Days'', 1)]"
    by (simp add: aging_defs iso_0701 iso_0331)
  have d: "age_in_days Date_parse_iso ''2024-07-01'' (iv\<lparr>due_date := ''2024-05-31''\<rparr>) = Some 31"
    by (simp add: age_in_days_def iso_0701 iso_0531)
  have e: "calculateAllowance id Date_parse_iso
       [iv\<lparr>due_date := ''2024-05-31'', balance_due := 5000\<rparr>] ''2024-07-01'' ! 2 =
     \<lparr>bucket = ''31-60 Days'', total_amount = 5000, invoice_count = 1,
      allowance_rate = 10 / 100, estimated_allowance = 500\<rparr>"
    by (simp add: aging_defs iso_0701 iso_0531)
  have f: "calculateAllowance id Date_parse_iso MOCK_INVOICES ''2024-07-01'' ! 2 =
     \<lparr>bucket = ''31-60 Days'', total_amount = 5000, invoice_count = 1,
      allowance_rate = 10 / 100, estimated_allowance = 500\<rparr>"
    by (simp add: aging_defs MOCK_INVOICES_def iso_0701 iso_0531 iso_0331 iso_1231 iso_0215)
  from a b c d e f show ?thesis by blast
qed

text \<open>
  In tenths, with the product rounded down: two invoices of 0.3, more than 90 days old.
  The bucket 90+ Days has the total 0.6 and the allowance 0.3, the one product of the
  total and the rate 0.5. The products made invoice by invoice, 0.1 each, would add up to
  0.2.
\<close>

theorem calculateAllowance_estimated_allowance_witness:
  "map total_amount
     (calculateAllowance tenths_literal Date_parse_iso two_late_invoices ''2024-07-01'') =
     [Tenths 0, Tenths 0, Tenths 0, Tenths 0, Tenths 6] \<and>
   map estimated_allowance
     (calculateAllowance tenths_literal Date_parse_iso two_late_invoices ''2024-07-01'') =
     [Tenths 0, Tenths 0, Tenths 0, Tenths 0, Tenths 3] \<and>
   running_total (map (\<lambda>iv. balance_due iv * tenths_literal (50 / 100)) two_late_invoices) =
     Tenths 2"
proof -
  let ?total = "\<lambda>k. running_total
      (map balance_due (filter (added_to Date_parse_iso ''2024-07-01'' k) two_late_invoices))"
  have added: "filter (added_to Date_parse_iso ''2024-07-01'' k) two_late_invoices =
      (if k = 4 then two_late_invoices else [])" for k
    by (simp add: two_late_invoices_def added_to_def age_in_days_def iso_0701 iso_1231
        bucketIndex_def less_eq_tenths_def zero_tenths_def)
  have total: "?total k = (if k = 4 then Tenths 6 else Tenths 0)" for k
    unfolding added
    by (simp add: running_total_def two_late_invoices_def plus_tenths_def zero_tenths_def)
  from calculateAllowance_estimated_allowance
    [of tenths_literal Date_parse_iso two_late_invoices "''2024-07-01''"]
  have "map total_amount
      (calculateAllowance tenths_literal Date_parse_iso two_late_invoices ''2024-07-01'') =
      map ?total [0..<5]"
    and "map estimated_allowance
      (calculateAllowance tenths_literal Date_parse_iso two_late_invoices ''2024-07-01'') =
      map (\<lambda>k. ?total k *
                tenths_literal ([1 / 100, 5 / 100, 10 / 100, 25 / 100, 50 / 100] ! k)) [0..<5]"
    by blast+
  moreover have "running_total
      (map (\<lambda>iv. balance_due iv * tenths_literal (50 / 100)) two_late_invoices) = Tenths 2"
    by (simp add: running_total_def two_late_invoices_def tenths_literal_def times_tenths_def
        plus_tenths_def zero_tenths_def)
  ultimately show ?thesis
    by (simp add: total upt5 tenths_literal_def times_tenths_def)
qed

subsection \<open>String helpers\<close>

lemma set_trim: "set (trim s) \<subseteq> set s"
  unfolding trim_def by (metis set_dropWhileD set_rev subsetI)

lemma dropWhile_no_lead: "xs = [] \<or> \<not> P (hd xs) \<Longrightarrow> dropWhile P xs = xs"
  by (cases xs) auto

lemma strip_end_hd:
  assumes "xs = [] \<or> \<not> P (hd xs)"
  shows "rev (dropWhile P (rev xs)) = [] \<or> \<not> P (hd (rev (dropWhile P (rev xs))))"
proof (cases "rev (dropWhile P (rev xs)) = []")
  case True
  then show ?thesis by simp
next
  case False
  then have ne: "dropWhile P (rev xs) \<noteq> []" by simp
  then have "xs \<noteq> []" by auto
  with assms have h: "\<not> P (hd xs)" by simp
  from \<open>xs \<noteq> []\<close> have "hd xs \<in> set (rev xs)" by simp
  then have "last (dropWhile P (rev xs)) = last (rev xs)" using h by (rule dropWhile_last)
  then have "hd (rev (dropWhile P (rev xs))) = hd xs"
    using ne \<open>xs \<noteq> []\<close> by (simp add: hd_rev last_rev)
  with h show ?thesis by simp
qed

lemma trim_trim: "trim (trim s) = trim s"
proof -
  let ?u = "dropWhile isWhiteSpace s"
  have "?u = [] \<or> \<not> isWhiteSpace (hd ?u)"
    using hd_dropWhile [of isWhiteSpace s] by blast
  then have "trim s = [] \<or> \<not> isWhiteSpace (hd (trim s))"
    unfolding trim_def by (rule strip_end_hd)
  then have "dropWhile isWhiteSpace (trim s) = trim s" by (rule dropWhile_no_lead)
  then have "trim (trim s) = rev (dropWhile isWhiteSpace (rev (trim s)))"
    by (simp add: trim_def)
  also have "\<dots> = trim s" by (simp add: trim_def)
  finally show ?thesis .
qed


lemma endsWith_last:
  assumes "endsWith s suffix" "suffix \<noteq> []"
  shows "last s = last suffix"
proof -
  from assms(1) have "s = take (length s - length suffix) s @ suffix"
    by (metis append_take_drop_id endsWith_def)
  then have "last s = last (take (length s - length suffix) s @ suffix)" by simp
  with assms(2) show ?thesis by simp
qed

lemma csv_not_json:
  assumes "endsWith n ''.csv''"
  shows "\<not> endsWith n ''.json''"
proof
  assume "endsWith n ''.json''"
  then have "last n = last ''.json''" by (rule endsWith_last) simp
  moreover from assms have "last n = last ''.csv''" by (rule endsWith_last) simp
  ultimately show False by simp
qed

subsection \<open>The line parser\<close>

text \<open>The values pushed so far stay in front of whatever the rest of the line adds.\<close>

lemma scanCSVLine_values: "scanCSVLine vs q cur s = vs @ scanCSVLine [] q cur s"
proof (induction s arbitrary: vs q cur)
  case Nil
  show ?case by simp
next
  case (Cons c s)
  show ?case
    by (simp add: Cons.IH [of "vs @ [trim cur]"] Cons.IH [of "[trim cur]"] Cons.IH [of vs])
qed

lemma quotes_before_Suc:
  "n < length line \<Longrightarrow>
   quotes_before line (Suc n) =
   quotes_before line n + (if line ! n = doubleQuote then 1 else 0)"
  by (simp add: quotes_before_def take_Suc_conv_app_nth)

lemma take_segment_Suc:
  assumes "a \<le> n" "n < length line"
  shows "take (Suc n - a) (drop a line) = take (n - a) (drop a line) @ [line ! n]"
proof -
  from assms have "Suc n - a = Suc (n - a)" by simp
  moreover from assms have "n - a < length (drop a line)" by simp
  moreover from assms have "drop a line ! (n - a) = line ! n" by simp
  ultimately show ?thesis by (simp add: take_Suc_conv_app_nth)
qed

text \<open>
  The invariant of the loop after \<open>n\<close> characters, the current value having begun at
  position \<open>a\<close>: \<^verbatim>\<open>inQuote\<close> is the parity of the quotes read, \<^verbatim>\<open>currentValue\<close> is what
  was read since \<open>a\<close> without its quotes.
\<close>

lemma scan_invariant:
  assumes "n \<le> length line" "a \<le> n"
  shows "scanCSVLine [] (odd (quotes_before line n))
           (filter (\<lambda>c. c \<noteq> doubleQuote) (take (n - a) (drop a line))) (drop n line) =
         map (\<lambda>seg. trim (filter (\<lambda>c. c \<noteq> doubleQuote) seg))
           (cut a (filter (separator line) [n..<length line]) line)"
  using assms
proof (induction "length line - n" arbitrary: n a)
  case 0
  then have "n = length line" by simp
  then show ?case by simp
next
  case (Suc k)
  then have n: "n < length line" by simp
  have d: "drop n line = line ! n # drop (Suc n) line"
    using n by (simp add: Cons_nth_drop_Suc)
  have u: "[n..<length line] = n # [Suc n..<length line]"
    using n by (simp add: upt_conv_Cons)
  have k: "k = length line - Suc n" using Suc.hyps(2) by simp
  have seg: "take (Suc n - a) (drop a line) = take (n - a) (drop a line) @ [line ! n]"
    using Suc.prems(2) n by (rule take_segment_Suc)
  have q: "quotes_before line (Suc n) =
      quotes_before line n + (if line ! n = doubleQuote then 1 else 0)"
    using n by (rule quotes_before_Suc)
  have ih1: "scanCSVLine [] (odd (quotes_before line (Suc n)))
           (filter (\<lambda>c. c \<noteq> doubleQuote) (take (Suc n - a) (drop a line)))
           (drop (Suc n) line) =
         map (\<lambda>seg. trim (filter (\<lambda>c. c \<noteq> doubleQuote) seg))
           (cut a (filter (separator line) [Suc n..<length line]) line)"
    using Suc.hyps(1) [of "Suc n" a] k n Suc.prems(2) by simp
  have ih2: "scanCSVLine [] (odd (quotes_before line (Suc n)))
           (filter (\<lambda>c. c \<noteq> doubleQuote) (take (Suc n - Suc n) (drop (Suc n) line)))
           (drop (Suc n) line) =
         map (\<lambda>seg. trim (filter (\<lambda>c. c \<noteq> doubleQuote) seg))
           (cut (Suc n) (filter (separator line) [Suc n..<length line]) line)"
    using Suc.hyps(1) [of "Suc n" "Suc n"] k n by simp
  show ?case
  proof (cases "line ! n = doubleQuote")
    case True
    then have "\<not> separator line n" by (simp add: separator_def doubleQuote_def)
    with True ih1 show ?thesis by (simp add: d u seg q)
  next
    case False
    note nq = False
    show ?thesis
    proof (cases "separator line n")
      case True
      then have c: "line ! n = CHR '',''" and e: "even (quotes_before line n)"
        by (simp_all add: separator_def)
      have "scanCSVLine [] (odd (quotes_before line n))
              (filter (\<lambda>c. c \<noteq> doubleQuote) (take (n - a) (drop a line))) (drop n line) =
            trim (filter (\<lambda>c. c \<noteq> doubleQuote) (take (n - a) (drop a line))) #
            scanCSVLine [] False [] (drop (Suc n) line)"
        using c e nq
          scanCSVLine_values
            [of "[trim (filter (\<lambda>c. c \<noteq> doubleQuote) (take (n - a) (drop a line)))]"
              False "[]" "drop (Suc n) line"]
        by (simp add: d)
      moreover have "scanCSVLine [] False [] (drop (Suc n) line) =
         map (\<lambda>seg. trim (filter (\<lambda>c. c \<noteq> doubleQuote) seg))
           (cut (Suc n) (filter (separator line) [Suc n..<length line]) line)"
        using ih2 e nq by (simp add: q)
      ultimately show ?thesis using True by (simp add: u)
    next
      case False
      then have "line ! n \<noteq> CHR '','' \<or> odd (quotes_before line n)"
        by (simp add: separator_def)
      with False nq ih1 show ?thesis by (auto simp add: d u seg q)
    qed
  qed
qed

lemma parseCSVLine_csv_fields: "parseCSVLine line = csv_fields line"
  using scan_invariant [of 0 line 0]
  by (simp add: parseCSVLine_def csv_fields_def separators_def quotes_before_def)

lemma length_cut: "length (cut a ps line) = Suc (length ps)"
  by (induction ps arbitrary: a) simp_all

lemma parseCSVLine_no_quote: "v \<in> set (parseCSVLine line) \<Longrightarrow> doubleQuote \<notin> set v"
  using set_trim by (fastforce simp add: parseCSVLine_csv_fields csv_fields_def)

lemma parseCSVLine_trimmed: "v \<in> set (parseCSVLine line) \<Longrightarrow> trim v = v"
  by (auto simp add: parseCSVLine_csv_fields csv_fields_def trim_trim)

text \<open>
  Claim C6. The values of a line are the pieces of the line between its commas outside
  quoted spans (a comma with an even number of double quotes before it), each without
  its double quotes and trimmed: one more value than there are such commas, no value
  holds a double quote, every value is trimmed. The line \<^verbatim>\<open>1,"Acme, Inc",x\<close> has the
  three values \<^verbatim>\<open>1\<close>, \<^verbatim>\<open>Acme, Inc\<close> and \<^verbatim>\<open>x\<close>.
\<close>

theorem parseCSVLine_fields:
  \<open>parseCSVLine line = csv_fields line \<and>
   length (parseCSVLine line) = Suc (length (separators line)) \<and>
   (\<forall>v \<in> set (parseCSVLine line). doubleQuote \<notin> set v \<and> trim v = v) \<and>
   parseCSVLine ''1,"Acme, Inc",x'' = [''1'', ''Acme, Inc'', ''x'']\<close>
proof -
  have len: "length (parseCSVLine line) = Suc (length (separators line))"
    by (simp add: parseCSVLine_csv_fields csv_fields_def length_cut)
  have acme: \<open>parseCSVLine ''1,"Acme, Inc",x'' = [''1'', ''Acme, Inc'', ''x'']\<close>
    by (simp add: parseCSVLine_def doubleQuote_def trim_def isWhiteSpace_def)
  from len acme show ?thesis
    using parseCSVLine_csv_fields parseCSVLine_no_quote parseCSVLine_trimmed by blast
qed

theorem parseCSVLine_fields_witness:
  \<open>''Acme, Inc'' \<in> set (parseCSVLine ''CUST-001, "Acme, Inc" ,finance@acme.com'') \<and>
   doubleQuote \<notin> set ''Acme, Inc'' \<and> trim ''Acme, Inc'' = ''Acme, Inc'' \<and>
   separators ''CUST-001, "Acme, Inc" ,finance@acme.com'' = [8, 22] \<and>
   length (parseCSVLine ''CUST-001, "Acme, Inc" ,finance@acme.com'') = 3\<close>
proof -
  have mem: \<open>''Acme, Inc'' \<in> set (parseCSVLine ''CUST-001, "Acme, Inc" ,finance@acme.com'')\<close>
    by (simp add: parseCSVLine_def doubleQuote_def trim_def isWhiteSpace_def)
  have seps: \<open>separators ''CUST-001, "Acme, Inc" ,finance@acme.com'' = [8, 22]\<close>
    by (simp add: separators_def separator_def quotes_before_def doubleQuote_def upt_rec)
  let ?L = \<open>''CUST-001, "Acme, Inc" ,finance@acme.com''\<close>
  from parseCSVLine_fields [of ?L]
  have every: "\<forall>v \<in> set (parseCSVLine ?L). doubleQuote \<notin> set v \<and> trim v = v"
    and len: "length (parseCSVLine ?L) = Suc (length (separators ?L))"
    by blast+
  from every mem have "doubleQuote \<notin> set ''Acme, Inc'' \<and> trim ''Acme, Inc'' = ''Acme, Inc''"
    by blast
  with mem seps len show ?thesis by simp
qed

subsection \<open>Rows and coercion\<close>







lemma parseCSVData_short_eq:
  "length (csvLines content) < 2 \<Longrightarrow> parseCSVData pf content = \<lparr>headers = [], data = []\<rparr>"
  by (simp add: parseCSVData_def)










subsection \<open>The upload handler\<close>

lemma fileLoads_csv:
  "endsWith (file_name f) ''.csv'' \<Longrightarrow>
   fileLoads J pf f =
     (case classify (headers (parseCSVData pf (file_text f))) of
        None \<Rightarrow> []
      | Some k \<Rightarrow> [(k, Records (data (parseCSVData pf (file_text f))), csv_label k)])"
  by (simp add: fileLoads_def csv_not_json classify_def signature_def csv_label_def Let_def)

lemma classify_cases:
  "classify hs =
     (if signature setCoa hs then Some setCoa
      else if signature setCustomers hs then Some setCustomers
      else if signature setInvoices hs then Some setInvoices
      else if signature setTransactions hs then Some setTransactions
      else None)"
  by (simp add: classify_def)

lemma uploadFile_no_load: "fileLoads J pf f = [] \<Longrightarrow> uploadFile J pf f acc = acc"
  by (simp add: uploadFile_def)

lemma fold_uploadFile_no_load:
  "\<forall>f \<in> set files. fileLoads J pf f = [] \<Longrightarrow> fold (uploadFile J pf) files acc = acc"
  by (induction files arbitrary: acc) (simp_all add: uploadFile_no_load)

lemma changed_sets_applyLoad: "length (changed_sets st (fst (applyLoad ld (st, info)))) \<le> 1"
  by (cases "fst ld") (simp_all add: applyLoad_def changed_sets_def Let_def)

lemma changed_sets_same: "changed_sets st st = []"
  by (simp add: changed_sets_def)

text \<open>
  Claim C9. A content with fewer than two non-blank lines parses to no header and no
  record; under a \<^verbatim>\<open>.csv\<close> name the file then makes no setter call and pushes no
  label, so the state and \<^verbatim>\<open>loadedInfo\<close> are as before, whatever its one line holds.
\<close>

theorem parseCSVData_short:
  "length (csvLines content) < 2 \<Longrightarrow>
   parseCSVData pf content = \<lparr>headers = [], data = []\<rparr> \<and>
   (endsWith (file_name f) ''.csv'' \<and> file_text f = content \<longrightarrow>
      fileLoads J pf f = [] \<and> uploadFile J pf f acc = acc)"
proof -
  assume short: "length (csvLines content) < 2"
  then have p: "parseCSVData pf content = \<lparr>headers = [], data = []\<rparr>"
    by (rule parseCSVData_short_eq)
  have "fileLoads J pf f = []" if "endsWith (file_name f) ''.csv''" "file_text f = content"
    using that p by (simp add: fileLoads_csv classify_cases signature_def)
  with p show ?thesis by (simp add: uploadFile_no_load)
qed

text \<open>
  The one line of \<open>header_only_csv\<close>, read as a header line, holds the pair of
  Accounts; the file is not recognized all the same.
\<close>

theorem parseCSVData_short_witness:
  "length (csvLines (file_text header_only_csv)) < 2 \<and>
   endsWith (file_name header_only_csv) ''.csv'' \<and>
   signature setCoa
     (map (\<lambda>h. toLowerCase (unquote (trim h)))
        (splitOn CHR '','' [] (file_text header_only_csv))) \<and>
   headers (parseCSVData parseFloat_digits (file_text header_only_csv)) = [] \<and>
   fileLoads JSON_parse_fails parseFloat_digits header_only_csv = [] \<and>
   uploadFile JSON_parse_fails parseFloat_digits header_only_csv (blank_state, []) =
     (blank_state, [])"
proof -
  have short: "length (csvLines (file_text header_only_csv)) < 2"
    by (simp add: header_only_csv_def csvLines_def trim_def isWhiteSpace_def)
  have name: "endsWith (file_name header_only_csv) ''.csv''"
    by (simp add: header_only_csv_def endsWith_def)
  have alone: "signature setCoa
     (map (\<lambda>h. toLowerCase (unquote (trim h)))
        (splitOn CHR '','' [] (file_text header_only_csv)))"
    by (simp add: header_only_csv_def signature_def toLowerCase_def unquote_def
        doubleQuote_def trim_def isWhiteSpace_def)
  from parseCSVData_short
    [OF short, of parseFloat_digits header_only_csv JSON_parse_fails "(blank_state, [])"] name
  have "parseCSVData parseFloat_digits (file_text header_only_csv) = \<lparr>headers = [], data = []\<rparr> \<and>
      fileLoads JSON_parse_fails parseFloat_digits header_only_csv = [] \<and>
      uploadFile JSON_parse_fails parseFloat_digits header_only_csv (blank_state, []) =
        (blank_state, [])"
    by simp
  with short name alone show ?thesis by simp
qed

text \<open>
  Claim C10. A \<^verbatim>\<open>.csv\<close> file is classified by the first signature its parsed headers
  satisfy in the order Accounts, Customers, Invoices, Transactions, whatever later
  signatures they satisfy as well: the file makes the one setter call of that type, or
  none when no signature matches, and so at most one primary set differs after the file.
\<close>

theorem csv_detection_precedence:
  assumes "endsWith (file_name f) ''.csv''"
    and "hs = headers (parseCSVData pf (file_text f))"
    and "d = Records (data (parseCSVData pf (file_text f)))"
  shows "fileLoads J pf f =
           (case find (\<lambda>k. signature k hs) [setCoa, setCustomers, setInvoices, setTransactions] of
              None \<Rightarrow> []
            | Some k \<Rightarrow> [(k, d, csv_label k)]) \<and>
         (signature setCoa hs \<longrightarrow> fileLoads J pf f = [(setCoa, d, ''COA (CSV)'')]) \<and>
         (\<not> signature setCoa hs \<and> signature setCustomers hs \<longrightarrow>
            fileLoads J pf f = [(setCustomers, d, ''Customers (CSV)'')]) \<and>
         (\<not> signature setCoa hs \<and> \<not> signature setCustomers hs \<and> signature setInvoices hs \<longrightarrow>
            fileLoads J pf f = [(setInvoices, d, ''Invoices (CSV)'')]) \<and>
         (\<not> signature setCoa hs \<and> \<not> signature setCustomers hs \<and> \<not> signature setInvoices hs \<and>
          signature setTransactions hs \<longrightarrow>
            fileLoads J pf f = [(setTransactions, d, ''Transactions (CSV)'')]) \<and>
         length (fileLoads J pf f) \<le> 1 \<and>
         length (changed_sets st (fst (uploadFile J pf f (st, info)))) \<le> 1"
proof -
  have loads: "fileLoads J pf f =
      (case classify hs of None \<Rightarrow> [] | Some k \<Rightarrow> [(k, d, csv_label k)])"
    using assms(1) unfolding assms(2) assms(3) by (simp add: fileLoads_csv)
  have one: "length (fileLoads J pf f) \<le> 1"
    by (simp add: loads split: option.split)
  have "length (changed_sets st (fst (uploadFile J pf f (st, info)))) \<le> 1"
  proof (cases "classify hs")
    case None
    then show ?thesis by (simp add: uploadFile_def loads changed_sets_same)
  next
    case (Some k)
    then show ?thesis
      using changed_sets_applyLoad [of st "(k, d, csv_label k)" info]
      by (simp add: uploadFile_def loads)
  qed
  with one loads show ?thesis
    by (simp add: classify_cases csv_label_def classify_def [symmetric])
qed

lemma accounts_customers_headers:
  "headers (parseCSVData parseFloat_digits (file_text accounts_customers_csv)) =
   [''account_id'', ''account_type'', ''customer_id'', ''risk_score_history'']"
  by (simp add: accounts_customers_csv_def parseCSVData_def csvLines_def Let_def toLowerCase_def
      unquote_def doubleQuote_def trim_def isWhiteSpace_def)

lemma customers_invoices_headers:
  "headers (parseCSVData parseFloat_digits (file_text customers_invoices_csv)) =
   [''invoice_id'', ''customer_id'', ''balance_due'', ''risk_score_history'']"
  by (simp add: customers_invoices_csv_def parseCSVData_def csvLines_def Let_def toLowerCase_def
      unquote_def doubleQuote_def trim_def isWhiteSpace_def char_of_def bit_Suc_0_iff)

text \<open>
  The headers of \<open>customers_invoices_csv\<close> satisfy the signatures of Customers and of
  Invoices; the file loads the customers, and only them.
\<close>

theorem csv_detection_precedence_witness:
  "endsWith (file_name customers_invoices_csv) ''.csv'' \<and>
   signature setCustomers
     (headers (parseCSVData parseFloat_digits (file_text customers_invoices_csv))) \<and>
   signature setInvoices
     (headers (parseCSVData parseFloat_digits (file_text customers_invoices_csv))) \<and>
   fileLoads JSON_parse_fails parseFloat_digits customers_invoices_csv =
     [(setCustomers,
       Records (data (parseCSVData parseFloat_digits (file_text customers_invoices_csv))),
       ''Customers (CSV)'')] \<and>
   length (changed_sets blank_state
     (fst (uploadFile JSON_parse_fails parseFloat_digits customers_invoices_csv
        (blank_state, [])))) \<le> 1"
proof -
  let ?hs = "headers (parseCSVData parseFloat_digits (file_text customers_invoices_csv))"
  have name: "endsWith (file_name customers_invoices_csv) ''.csv''"
    by (simp add: customers_invoices_csv_def endsWith_def)
  have sigs: "\<not> signature setCoa ?hs" "signature setCustomers ?hs" "signature setInvoices ?hs"
    by (simp_all add: customers_invoices_headers signature_def)
  from csv_detection_precedence
    [where f = customers_invoices_csv and pf = parseFloat_digits and J = JSON_parse_fails
       and st = blank_state and info = "[]", OF name refl refl] sigs
  show ?thesis using name by (simp add: csv_label_def)
qed

text \<open>
  Claim C5, as the handler has it. Under a \<^verbatim>\<open>.csv\<close> name, with the headers the parser
  returns: the file is loaded as Accounts exactly when the headers hold \<open>account_id\<close>
  and \<open>account_type\<close>; as Customers exactly when they hold \<open>customer_id\<close> and
  \<open>risk_score_history\<close> and not the pair of Accounts; as Invoices exactly when they hold
  \<open>invoice_id\<close> and \<open>balance_due\<close> and neither earlier pair; as Transactions exactly when
  they hold \<open>transaction_id\<close> and \<open>debit_account_id\<close> and no earlier pair; and it is not
  loaded at all exactly when no pair is there. A file that is not loaded leaves the state
  and the labels as they were. A batch of at least one file, none of which is loaded,
  leaves the state as it was and alerts \<open>No recognized data found\<close>, which no alert of
  a successful load is; a batch of no file leaves the state as it was and alerts nothing.
\<close>

theorem csv_detection_signatures:
  assumes "endsWith (file_name f) ''.csv''"
    and "hs = headers (parseCSVData pf (file_text f))"
    and "d = Records (data (parseCSVData pf (file_text f)))"
  shows "(fileLoads J pf f = [(setCoa, d, ''COA (CSV)'')] \<longleftrightarrow> signature setCoa hs) \<and>
         (fileLoads J pf f = [(setCustomers, d, ''Customers (CSV)'')] \<longleftrightarrow>
            signature setCustomers hs \<and> \<not> signature setCoa hs) \<and>
         (fileLoads J pf f = [(setInvoices, d, ''Invoices (CSV)'')] \<longleftrightarrow>
            signature setInvoices hs \<and> \<not> signature setCoa hs \<and> \<not> signature setCustomers hs) \<and>
         (fileLoads J pf f = [(setTransactions, d, ''Transactions (CSV)'')] \<longleftrightarrow>
            signature setTransactions hs \<and> \<not> signature setCoa hs \<and>
            \<not> signature setCustomers hs \<and> \<not> signature setInvoices hs) \<and>
         (fileLoads J pf f = [] \<longleftrightarrow>
            \<not> signature setCoa hs \<and> \<not> signature setCustomers hs \<and>
            \<not> signature setInvoices hs \<and> \<not> signature setTransactions hs) \<and>
         (fileLoads J pf f = [] \<longrightarrow> uploadFile J pf f acc = acc) \<and>
         (files \<noteq> [] \<and> (\<forall>g \<in> set files. fileLoads J pf g = []) \<longrightarrow>
            handleFileUpload J pf files st =
              (st, Some ''No recognized data found. Please check CSV headers.'')) \<and>
         handleFileUpload J pf [] st = (st, None) \<and>
         ''No recognized data found. Please check CSV headers.'' \<noteq>
           ''Successfully loaded: '' @ join '', '' labels"
proof -
  have loads: "fileLoads J pf f =
      (case classify hs of None \<Rightarrow> [] | Some k \<Rightarrow> [(k, d, csv_label k)])"
    using assms(1) unfolding assms(2) assms(3) by (simp add: fileLoads_csv)
  have iffs: "(fileLoads J pf f = [(setCoa, d, ''COA (CSV)'')] \<longleftrightarrow> signature setCoa hs) \<and>
         (fileLoads J pf f = [(setCustomers, d, ''Customers (CSV)'')] \<longleftrightarrow>
            signature setCustomers hs \<and> \<not> signature setCoa hs) \<and>
         (fileLoads J pf f = [(setInvoices, d, ''Invoices (CSV)'')] \<longleftrightarrow>
            signature setInvoices hs \<and> \<not> signature setCoa hs \<and> \<not> signature setCustomers hs) \<and>
         (fileLoads J pf f = [(setTransactions, d, ''Transactions (CSV)'')] \<longleftrightarrow>
            signature setTransactions hs \<and> \<not> signature setCoa hs \<and>
            \<not> signature setCustomers hs \<and> \<not> signature setInvoices hs) \<and>
         (fileLoads J pf f = [] \<longleftrightarrow>
            \<not> signature setCoa hs \<and> \<not> signature setCustomers hs \<and>
            \<not> signature setInvoices hs \<and> \<not> signature setTransactions hs)"
    by (simp add: loads classify_cases csv_label_def)
  have batch: "handleFileUpload J pf files st =
      (st, Some ''No recognized data found. Please check CSV headers.'')"
    if "files \<noteq> []" "\<forall>g \<in> set files. fileLoads J pf g = []"
    using that by (simp add: handleFileUpload_def fold_uploadFile_no_load Let_def)
  have alert: "''No recognized data found. Please check CSV headers.'' \<noteq>
      ''Successfully loaded: '' @ join '', '' labels"
    by simp
  have empty: "handleFileUpload J pf [] st = (st, None)"
    by (simp add: handleFileUpload_def)
  from iffs batch alert empty show ?thesis
    using uploadFile_no_load [of J pf f acc] by blast
qed

lemma unknown_headers:
  "headers (parseCSVData parseFloat_digits (file_text unknown_csv)) = [''foo'', ''bar'']"
  by (simp add: unknown_csv_def parseCSVData_def csvLines_def Let_def toLowerCase_def
      unquote_def doubleQuote_def trim_def isWhiteSpace_def)

lemma header_only_loads: "fileLoads JSON_parse_fails parseFloat_digits header_only_csv = []"
proof -
  have "length (csvLines (file_text header_only_csv)) < 2"
    by (simp add: header_only_csv_def csvLines_def trim_def isWhiteSpace_def)
  then have "headers (parseCSVData parseFloat_digits (file_text header_only_csv)) = []"
    by (simp add: parseCSVData_short_eq)
  moreover have "endsWith (file_name header_only_csv) ''.csv''"
    by (simp add: header_only_csv_def endsWith_def)
  ultimately show ?thesis
    by (simp add: fileLoads_csv classify_cases signature_def)
qed

lemma broken_json_loads: "fileLoads JSON_parse_fails parseFloat_digits broken_json = []"
  by (simp add: fileLoads_def broken_json_def endsWith_def JSON_parse_fails_def)

lemma readme_loads: "fileLoads JSON_parse_fails parseFloat_digits readme_txt = []"
  by (simp add: fileLoads_def readme_txt_def endsWith_def)

text \<open>
  A batch of four files, none recognized: a \<^verbatim>\<open>.csv\<close> file with unknown headers, one
  with a header line only, a \<^verbatim>\<open>.json\<close> file that does not parse and a text file.
\<close>

theorem csv_detection_signatures_witness:
  "endsWith (file_name unknown_csv) ''.csv'' \<and>
   \<not> signature setCoa (headers (parseCSVData parseFloat_digits (file_text unknown_csv))) \<and>
   \<not> signature setCustomers (headers (parseCSVData parseFloat_digits (file_text unknown_csv))) \<and>
   \<not> signature setInvoices (headers (parseCSVData parseFloat_digits (file_text unknown_csv))) \<and>
   \<not> signature setTransactions
       (headers (parseCSVData parseFloat_digits (file_text unknown_csv))) \<and>
   fileLoads JSON_parse_fails parseFloat_digits unknown_csv = [] \<and>
   uploadFile JSON_parse_fails parseFloat_digits unknown_csv (blank_state, []) =
     (blank_state, []) \<and>
   handleFileUpload JSON_parse_fails parseFloat_digits
     [unknown_csv, header_only_csv, broken_json, readme_txt] blank_state =
     (blank_state, Some ''No recognized data found. Please check CSV headers.'')"
proof -
  let ?hs = "headers (parseCSVData parseFloat_digits (file_text unknown_csv))"
  let ?files = "[unknown_csv, header_only_csv, broken_json, readme_txt]"
  have name: "endsWith (file_name unknown_csv) ''.csv''"
    by (simp add: unknown_csv_def endsWith_def)
  have sigs: "\<not> signature setCoa ?hs" "\<not> signature setCustomers ?hs"
    "\<not> signature setInvoices ?hs" "\<not> signature setTransactions ?hs"
    by (simp_all add: unknown_headers signature_def)
  note inst = csv_detection_signatures
    [where f = unknown_csv and pf = parseFloat_digits and J = JSON_parse_fails
       and st = blank_state and acc = "(blank_state, [])" and files = ?files,
     OF name refl refl]
  from inst sigs have none: "fileLoads JSON_parse_fails parseFloat_digits unknown_csv = []"
    by blast
  with inst have same: "uploadFile JSON_parse_fails parseFloat_digits unknown_csv
      (blank_state, []) = (blank_state, [])"
    by blast
  have "?files \<noteq> [] \<and>
      (\<forall>g \<in> set ?files. fileLoads JSON_parse_fails parseFloat_digits g = [])"
    by (simp add: none header_only_loads broken_json_loads readme_loads)
  with inst have "handleFileUpload JSON_parse_fails parseFloat_digits ?files blank_state =
      (blank_state, Some ''No recognized data found. Please check CSV headers.'')"
    by blast
  with name sigs none same show ?thesis by blast
qed

text \<open>
  Claim C5 as the specification has it fails on two inputs. The headers of
  \<open>accounts_customers_csv\<close> hold \<open>customer_id\<close> and \<open>risk_score_history\<close>, and the file
  is loaded as Accounts and not as Customers: the customers stay as they were. And the
  batch of no file is left at once, with no alert.
\<close>

theorem csv_detection_iff_counterexample:
  "endsWith (file_name accounts_customers_csv) ''.csv'' \<and>
   signature setCustomers
     (headers (parseCSVData parseFloat_digits (file_text accounts_customers_csv))) \<and>
   fileLoads JSON_parse_fails parseFloat_digits accounts_customers_csv =
     [(setCoa,
       Records (data (parseCSVData parseFloat_digits (file_text accounts_customers_csv))),
       ''COA (CSV)'')] \<and>
   customers (fst (handleFileUpload JSON_parse_fails parseFloat_digits
                     [accounts_customers_csv] blank_state)) = customers blank_state \<and>
   snd (handleFileUpload JSON_parse_fails parseFloat_digits
          [accounts_customers_csv] blank_state) = Some ''Successfully loaded: COA (CSV)'' \<and>
   handleFileUpload JSON_parse_fails parseFloat_digits [] blank_state = (blank_state, None)"
proof -
  have name: "endsWith (file_name accounts_customers_csv) ''.csv''"
    by (simp add: accounts_customers_csv_def endsWith_def)
  have sig: "signature setCustomers
      (headers (parseCSVData parseFloat_digits (file_text accounts_customers_csv)))"
    by (simp add: accounts_customers_headers signature_def)
  have loads: "fileLoads JSON_parse_fails parseFloat_digits accounts_customers_csv =
      [(setCoa,
        Records (data (parseCSVData parseFloat_digits (file_text accounts_customers_csv))),
        ''COA (CSV)'')]"
    by (simp add: fileLoads_csv [OF name] classify_cases accounts_customers_headers
        signature_def csv_label_def)
  have batch: "customers (fst (handleFileUpload JSON_parse_fails parseFloat_digits
        [accounts_customers_csv] blank_state)) = customers blank_state"
    "snd (handleFileUpload JSON_parse_fails parseFloat_digits
        [accounts_customers_csv] blank_state) = Some ''Successfully loaded: COA (CSV)''"
    by (simp_all add: handleFileUpload_def uploadFile_def loads applyLoad_def Let_def)
  have empty: "handleFileUpload JSON_parse_fails parseFloat_digits [] blank_state =
      (blank_state, None)"
    by (simp add: handleFileUpload_def)
  from name sig loads batch empty show ?thesis by blast
qed

end
